theory Spec2Isabelle
  imports Complex_Main
begin

section \<open>Python strings\<close>

text \<open>
  A Python \<open>str\<close> is modelled as a \<open>string\<close> whose characters are the code points
  below 256, one \<open>char\<close> per code point. The classification tables below are those of
  CPython for that range: \<open>str.isspace\<close> (also the regular expression class \<open>\s\<close>),
  \<open>str.lower\<close>, \<open>str.isupper\<close>, the class \<open>\w\<close> and the class \<open>\d\<close>.
\<close>

definition is_space :: "char \<Rightarrow> bool" where
  "is_space c =
     (let n = (of_char c :: nat)
      in (9 \<le> n \<and> n \<le> 13) \<or> (28 \<le> n \<and> n \<le> 32) \<or> n = 133 \<or> n = 160)"

definition is_upper_char :: "char \<Rightarrow> bool" where
  "is_upper_char c =
     (let n = (of_char c :: nat)
      in (65 \<le> n \<and> n \<le> 90) \<or> (192 \<le> n \<and> n \<le> 214) \<or> (216 \<le> n \<and> n \<le> 222))"

definition is_lower_char :: "char \<Rightarrow> bool" where
  "is_lower_char c =
     (let n = (of_char c :: nat)
      in (97 \<le> n \<and> n \<le> 122) \<or> n = 170 \<or> n = 181 \<or> n = 186 \<or>
         (223 \<le> n \<and> n \<le> 246) \<or> (248 \<le> n \<and> n \<le> 255))"

definition is_digit :: "char \<Rightarrow> bool" where
  "is_digit c = (let n = (of_char c :: nat) in 48 \<le> n \<and> n \<le> 57)"

definition is_word_char :: "char \<Rightarrow> bool" where
  "is_word_char c =
     (let n = (of_char c :: nat)
      in (48 \<le> n \<and> n \<le> 57) \<or> (65 \<le> n \<and> n \<le> 90) \<or> n = 95 \<or> (97 \<le> n \<and> n \<le> 122) \<or>
         n = 170 \<or> n = 178 \<or> n = 179 \<or> n = 181 \<or> n = 185 \<or> n = 186 \<or>
         (188 \<le> n \<and> n \<le> 190) \<or> (192 \<le> n \<and> n \<le> 214) \<or> (216 \<le> n \<and> n \<le> 246) \<or>
         (248 \<le> n \<and> n \<le> 255))"

definition lower_char :: "char \<Rightarrow> char" where
  "lower_char c = (if is_upper_char c then char_of ((of_char c :: nat) + 32) else c)"

definition lower :: "string \<Rightarrow> string" where
  "lower s = map lower_char s"

text \<open>\<open>s.isupper()\<close>: no lowercase character and at least one uppercase character.\<close>

definition isupper :: "string \<Rightarrow> bool" where
  "isupper s = (\<not> list_ex is_lower_char s \<and> list_ex is_upper_char s)"

definition strip :: "string \<Rightarrow> string" where
  "strip s = rev (dropWhile is_space (rev (dropWhile is_space s)))"

text \<open>\<open>s.split()\<close>: the maximal runs of characters that are not whitespace.\<close>

fun split_ws :: "string \<Rightarrow> string \<Rightarrow> string list" where
  "split_ws cur [] = (if cur = [] then [] else [cur])"
| "split_ws cur (c # cs) =
     (if is_space c then (if cur = [] then split_ws [] cs else cur # split_ws [] cs)
      else split_ws (cur @ [c]) cs)"

definition split :: "string \<Rightarrow> string list" where
  "split s = split_ws [] s"

text \<open>\<open>s.split(sep)\<close> for a separator of one character: never empty.\<close>

fun split_on :: "char \<Rightarrow> string \<Rightarrow> string list" where
  "split_on sep [] = [[]]"
| "split_on sep (c # cs) =
     (if c = sep then [] # split_on sep cs
      else (case split_on sep cs of [] \<Rightarrow> [[c]] | w # ws \<Rightarrow> (c # w) # ws))"

definition startswith :: "string \<Rightarrow> string \<Rightarrow> bool" where
  "startswith s p = (take (length p) s = p)"

definition endswith :: "string \<Rightarrow> string \<Rightarrow> bool" where
  "endswith s p = (length p \<le> length s \<and> drop (length s - length p) s = p)"

text \<open>\<open>sub in s\<close>: \<open>sub\<close> occurs in \<open>s\<close> as a contiguous run.\<close>

fun str_contains :: "string \<Rightarrow> string \<Rightarrow> bool" where
  "str_contains [] sub = (sub = [])"
| "str_contains (c # cs) sub = (startswith (c # cs) sub \<or> str_contains cs sub)"


text \<open>The exceptions of the source that the model distinguishes.\<close>

datatype py_error =
  IndexError | TypeError | ValueError | AttributeError | OpenError string | SaveError |
  MakedirsError | ReportWriteError

text \<open>
  \<open>str(n)\<close> for an integer: the decimal digits, after a minus sign when negative.
  CPython refuses to convert an integer of more than 4300 decimal digits (the default
  of \<open>sys.get_int_max_str_digits()\<close>) and raises \<open>ValueError\<close>.
\<close>

definition max_str_digits :: nat where
  "max_str_digits = 4300"

definition digit_char :: "nat \<Rightarrow> char" where
  "digit_char d = char_of (48 + d)"

fun str_nat :: "nat \<Rightarrow> string" where
  "str_nat n = (if n < 10 then [digit_char n] else str_nat (n div 10) @ [digit_char (n mod 10)])"

declare str_nat.simps [simp del]

definition str_int :: "int \<Rightarrow> py_error + string" where
  "str_int i =
     (let digits = str_nat (nat \<bar>i\<bar>)
      in if length digits > max_str_digits then Inl ValueError
         else Inr (if i < 0 then CHR ''-'' # digits else digits))"





section \<open>Regular expressions\<close>

text \<open>
  The patterns of the source use literals, the word boundary \<open>\b\<close>, the digit class
  \<open>\d\<close>, alternation and bounded repetition of a digit. \<open>rx_ends r s i\<close> lists the
  positions at which a match of \<open>r\<close> that starts at position \<open>i\<close> of \<open>s\<close> can end;
  \<open>re_search\<close> is the truth value of \<open>re.search(r, s)\<close>.
\<close>

datatype rx = Lit string | WordB | Digit | Seq rx rx | Alt rx rx

definition at_boundary :: "string \<Rightarrow> nat \<Rightarrow> bool" where
  "at_boundary s i =
     ((0 < i \<and> i \<le> length s \<and> is_word_char (s ! (i - 1))) \<noteq>
      (i < length s \<and> is_word_char (s ! i)))"

fun rx_ends :: "rx \<Rightarrow> string \<Rightarrow> nat \<Rightarrow> nat list" where
  "rx_ends (Lit l) s i = (if startswith (drop i s) l then [i + length l] else [])"
| "rx_ends WordB s i = (if at_boundary s i then [i] else [])"
| "rx_ends Digit s i = (if i < length s \<and> is_digit (s ! i) then [i + 1] else [])"
| "rx_ends (Seq a b) s i = concat (map (rx_ends b s) (rx_ends a s i))"
| "rx_ends (Alt a b) s i = rx_ends a s i @ rx_ends b s i"

definition re_search :: "rx \<Rightarrow> string \<Rightarrow> bool" where
  "re_search r s = list_ex (\<lambda>i. rx_ends r s i \<noteq> []) [0..<Suc (length s)]"

text \<open>\<open>\bLITERAL\b\<close>.\<close>

definition word :: "string \<Rightarrow> rx" where
  "word l = Seq WordB (Seq (Lit l) WordB)"

text \<open>\<open>\d{lo,hi}\<close> for \<open>1 \<le> lo\<close>: \<open>lo\<close> digits, then up to \<open>hi - lo\<close> more.\<close>

fun digits_upto :: "nat \<Rightarrow> rx" where
  "digits_upto 0 = Lit []"
| "digits_upto (Suc n) = Alt (Seq Digit (digits_upto n)) (Lit [])"

fun digits_exactly :: "nat \<Rightarrow> rx \<Rightarrow> rx" where
  "digits_exactly 0 r = r"
| "digits_exactly (Suc n) r = Seq Digit (digits_exactly n r)"

definition digits_between :: "nat \<Rightarrow> nat \<Rightarrow> rx" where
  "digits_between lo hi = digits_exactly lo (digits_upto (hi - lo))"

text \<open>\<open>re.sub(r'\s+', ' ', s)\<close>: every maximal run of whitespace becomes one space.\<close>

fun collapse_from :: "bool \<Rightarrow> string \<Rightarrow> string" where
  "collapse_from in_run [] = []"
| "collapse_from in_run (c # cs) =
     (if is_space c then (if in_run then collapse_from True cs else CHR '' '' # collapse_from True cs)
      else c # collapse_from False cs)"

definition collapse_ws :: "string \<Rightarrow> string" where
  "collapse_ws s = collapse_from False s"

section \<open>Type detection (\<open>processor/type_detector.py\<close>)\<close>

text \<open>
  Confidences are Python floats in the source: IEEE 754 binary64. A float is modelled by
  the rational number it stands for, and every literal and every operation rounds to
  the nearest binary64 number, ties to even: \<open>to_double x\<close> scales \<open>x\<close> by the power of two
  that brings it to 53 significant bits (or to the subnormal spacing), rounds, and scales
  back. Infinities are not modelled: the numbers of this module are sums of at most as
  many weights as a type has keywords.
\<close>

function bit_length :: "int \<Rightarrow> int" where
  "bit_length n = (if n \<le> 0 then 0 else 1 + bit_length (n div 2))"
  by pat_completeness auto
termination
  by (relation "measure nat") auto

declare bit_length.simps [simp del]

definition pow2 :: "int \<Rightarrow> rat" where
  "pow2 e = (if 0 \<le> e then 2 ^ nat e else 1 / 2 ^ nat (- e))"

definition round_half_even :: "rat \<Rightarrow> int" where
  "round_half_even m =
     (let f = \<lfloor>m\<rfloor>; d = m - of_int f
      in if d < 1 / 2 then f else if d > 1 / 2 then f + 1 else if even f then f else f + 1)"

text \<open>For \<open>x > 0\<close>: the \<open>e\<close> with \<open>2 ^ e \<le> x < 2 ^ (e + 1)\<close>.\<close>

definition exponent_of :: "rat \<Rightarrow> int" where
  "exponent_of x =
     (case quotient_of x of
        (p, q) \<Rightarrow>
          (let k = bit_length p - bit_length q
           in if x < pow2 k then k - 1 else k))"

definition to_double :: "rat \<Rightarrow> rat" where
  "to_double x =
     (if x = 0 then 0
      else (let e = max (exponent_of \<bar>x\<bar>) (- 1022);
                quantum = pow2 (e - 52)
            in sgn x * of_int (round_half_even (\<bar>x\<bar> / quantum)) * quantum))"

definition fadd :: "rat \<Rightarrow> rat \<Rightarrow> rat" where
  "fadd a b = to_double (a + b)"

definition fsub :: "rat \<Rightarrow> rat \<Rightarrow> rat" where
  "fsub a b = to_double (a - b)"

definition fdiv :: "rat \<Rightarrow> rat \<Rightarrow> rat" where
  "fdiv a b = to_double (a / b)"

record patterns =
  primary_keywords :: "string list"
  secondary_keywords :: "string list"
  exclusion_keywords :: "string list"
  structure_indicators :: "string list"
  confidence_threshold :: rat

definition mk_patterns ::
  "string list \<Rightarrow> string list \<Rightarrow> string list \<Rightarrow> string list \<Rightarrow> rat \<Rightarrow> patterns" where
  "mk_patterns p s e i t =
     \<lparr>primary_keywords = p, secondary_keywords = s, exclusion_keywords = e,
      structure_indicators = i, confidence_threshold = t\<rparr>"

definition DOCUMENT_PATTERNS :: "(string \<times> patterns) list" where
  "DOCUMENT_PATTERNS =
    [(''Articles of Association'', mk_patterns
        [''articles of association'', ''articles of incorporation'']
        [''share capital'', ''directors'', ''shareholders'', ''company constitution'']
        [''memorandum'']
        [''article 1'', ''article 2'', ''clause'']
        (to_double (6 / 10))),
     (''Memorandum of Association'', mk_patterns
        [''memorandum of association'', ''memorandum of incorporation'']
        [''company name'', ''registered office'', ''objects'', ''liability'']
        [''articles'']
        [''whereas'', ''now therefore'']
        (to_double (6 / 10))),
     (''UBO Declaration'', mk_patterns
        [''ultimate beneficial owner'', ''ubo declaration'', ''beneficial ownership'']
        [''25%'', ''twenty-five percent'', ''ownership'', ''control'']
        []
        [''declare'', ''confirm'', ''certify'']
        (to_double (5 / 10))),
     (''Register of Members and Directors'', mk_patterns
        [''register of members'', ''register of directors'', ''members register'']
        [''shareholder'', ''director'', ''appointment'', ''resignation'']
        []
        [''name'', ''address'', ''shares held'', ''date of appointment'']
        (to_double (5 / 10))),
     (''Incorporation Application'', mk_patterns
        [''incorporation application'', ''application for incorporation'', ''company formation'']
        [''proposed name'', ''business activity'', ''applicant'']
        []
        [''applicant details'', ''proposed activities'']
        (to_double (5 / 10))),
     (''Board Resolution'', mk_patterns
        [''board resolution'', ''directors' resolution'', ''board meeting'']
        [''resolved'', ''directors'', ''meeting'', ''unanimous'']
        [''shareholder'']
        [''it was resolved'', ''resolved that'', ''meeting held'']
        (to_double (5 / 10))),
     (''Shareholder Resolution'', mk_patterns
        [''shareholder resolution'', ''shareholders' resolution'', ''general meeting'']
        [''resolved'', ''shareholders'', ''meeting'', ''ordinary resolution'']
        [''board'', ''directors'']
        [''it was resolved'', ''resolved that'', ''meeting held'']
        (to_double (5 / 10))),
     (''Employment Contract'', mk_patterns
        [''employment contract'', ''employment agreement'', ''service agreement'']
        [''employee'', ''employer'', ''salary'', ''termination'', ''duties'']
        []
        [''terms of employment'', ''job description'', ''remuneration'']
        (to_double (5 / 10))),
     (''Commercial License Application'', mk_patterns
        [''commercial license'', ''license application'', ''business license'']
        [''trade name'', ''business activity'', ''premises'']
        []
        [''license details'', ''business activities'']
        (to_double (5 / 10))),
     (''Power of Attorney'', mk_patterns
        [''power of attorney'', ''poa'', ''attorney'']
        [''appoint'', ''attorney'', ''behalf'', ''authorize'']
        []
        [''hereby appoint'', ''full power'', ''in witness whereof'']
        (to_double (5 / 10))),
     (''Lease Agreement'', mk_patterns
        [''lease agreement'', ''tenancy agreement'', ''rental agreement'']
        [''landlord'', ''tenant'', ''premises'', ''rent'', ''lease term'']
        []
        [''lease term'', ''rental amount'', ''premises description'']
        (to_double (5 / 10))),
     (''Non-Disclosure Agreement'', mk_patterns
        [''non-disclosure agreement'', ''nda'', ''confidentiality agreement'']
        [''confidential'', ''proprietary'', ''disclosure'', ''information'']
        []
        [''confidential information'', ''non-disclosure'']
        (to_double (5 / 10)))]"

text \<open>The number of keywords of a list that occur in the text.\<close>

definition count_found :: "string \<Rightarrow> string list \<Rightarrow> nat" where
  "count_found text kws = length (filter (str_contains text) kws)"

text \<open>
  \<open>_calculate_confidence\<close>. The loops add \<open>0.5\<close> to the score per primary keyword found
  (and a bonus of \<open>0.1\<close> when more than one is found), then \<open>0.1\<close> per secondary keyword
  found, then \<open>0.15\<close> per structure indicator found, and subtract \<open>0.2\<close> per exclusion
  keyword found; the total possible weight grows by the weight of every primary,
  secondary and structure keyword, in that order. Each \<open>+=\<close> and \<open>-=\<close> is one rounded
  operation, so the sums are iterated, not multiplied out.
\<close>

definition confidence_of_counts ::
  "nat \<Rightarrow> nat \<Rightarrow> nat \<Rightarrow> nat \<Rightarrow> nat \<Rightarrow> nat \<Rightarrow> nat \<Rightarrow> rat" where
  "confidence_of_counts n_primary n_secondary n_structure
       primary_found secondary_found structure_found exclusions_found =
     (let primary_weight = to_double (5 / 10);
          secondary_weight = to_double (1 / 10);
          structure_weight = to_double (15 / 100);
          exclusion_penalty = to_double (2 / 10);
          total_possible = ((\<lambda>t. fadd t primary_weight) ^^ n_primary) 0;
          total_possible = ((\<lambda>t. fadd t secondary_weight) ^^ n_secondary) total_possible;
          total_possible = ((\<lambda>t. fadd t structure_weight) ^^ n_structure) total_possible;
          score = ((\<lambda>s. fadd s primary_weight) ^^ primary_found) 0;
          score = (if primary_found > 1 then fadd score (to_double (1 / 10)) else score);
          score = ((\<lambda>s. fadd s secondary_weight) ^^ secondary_found) score;
          score = ((\<lambda>s. fadd s structure_weight) ^^ structure_found) score;
          score = ((\<lambda>s. fsub s exclusion_penalty) ^^ exclusions_found) score;
          confidence = (if total_possible > 0 then min (fdiv score total_possible) 1 else 0)
      in max confidence 0)"

definition calculate_confidence :: "string \<Rightarrow> patterns \<Rightarrow> rat" where
  "calculate_confidence text pats =
     confidence_of_counts
       (length (primary_keywords pats)) (length (secondary_keywords pats))
       (length (structure_indicators pats))
       (count_found text (primary_keywords pats)) (count_found text (secondary_keywords pats))
       (count_found text (structure_indicators pats))
       (count_found text (exclusion_keywords pats))"

definition legal_indicators :: "(string \<times> string) list" where
  "legal_indicators =
     [(''contract'', ''Contract''), (''agreement'', ''Agreement''),
      (''resolution'', ''Resolution''), (''application'', ''Application''),
      (''declaration'', ''Declaration''), (''certificate'', ''Certificate''),
      (''notice'', ''Notice''), (''policy'', ''Policy''),
      (''procedure'', ''Procedure''), (''form'', ''Form'')]"

definition fallback_detection :: "string \<Rightarrow> string" where
  "fallback_detection text =
     (case find (\<lambda>(indicator, doc_type). str_contains text indicator) legal_indicators of
        Some (indicator, doc_type) \<Rightarrow> ''General '' @ doc_type
      | None \<Rightarrow>
          (let word_count = length (split text)
           in if word_count < 100 then ''Short Form/Notice''
              else if word_count > 2000 then ''Complex Legal Document''
              else ''Standard Business Document''))"

text \<open>\<open>not text or not text.strip()\<close>.\<close>

definition is_blank :: "string \<Rightarrow> bool" where
  "is_blank text = (text = [] \<or> strip text = [])"

text \<open>
  The loop of \<open>detect_doc_type\<close> over a pattern table: the types whose confidence
  reaches their threshold, in the table's order, each with its confidence.
\<close>

fun detected_in :: "(string \<times> patterns) list \<Rightarrow> string \<Rightarrow> (string \<times> rat) list" where
  "detected_in [] text_normalized = []"
| "detected_in ((doc_type, pats) # rest) text_normalized =
     (let confidence = calculate_confidence text_normalized pats
      in if confidence \<ge> confidence_threshold pats
         then (doc_type, confidence) # detected_in rest text_normalized
         else detected_in rest text_normalized)"

text \<open>
  \<open>list.sort(key=lambda x: x[1], reverse=True)\<close>: a stable sort by descending confidence
  (insertion from the right keeps equal keys in their original order).
\<close>

fun insert_desc :: "(string \<times> rat) \<Rightarrow> (string \<times> rat) list \<Rightarrow> (string \<times> rat) list" where
  "insert_desc x [] = [x]"
| "insert_desc x (y # ys) = (if snd x \<ge> snd y then x # y # ys else y # insert_desc x ys)"

definition sort_desc :: "(string \<times> rat) list \<Rightarrow> (string \<times> rat) list" where
  "sort_desc xs = foldr insert_desc xs []"

text \<open>
  \<open>detect_doc_type(text, return_confidence=True)\<close>, with the pattern table as a
  parameter; the source reads the module constant \<open>DOCUMENT_PATTERNS\<close>.
\<close>

definition detect_with_confidence :: "(string \<times> patterns) list \<Rightarrow> string \<Rightarrow> (string \<times> rat) list" where
  "detect_with_confidence table text =
     (if is_blank text then [(''Unknown'', 0)]
      else
        (let text_lower = lower text;
             text_normalized = collapse_ws text_lower;
             detected_types = detected_in table text_normalized;
             detected_types = (if detected_types \<noteq> [] then sort_desc detected_types else detected_types)
         in if detected_types = [] then [(fallback_detection text_normalized, to_double (3 / 10))]
            else detected_types))"

text \<open>\<open>detect_doc_type(text)\<close>: the names only, in the table's order, not sorted.\<close>

definition detect_names :: "(string \<times> patterns) list \<Rightarrow> string \<Rightarrow> string list" where
  "detect_names table text =
     (if is_blank text then [''Unknown'']
      else
        (let text_lower = lower text;
             text_normalized = collapse_ws text_lower;
             detected_types = map fst (detected_in table text_normalized)
         in if detected_types = [] then [fallback_detection text_normalized]
            else detected_types))"

datatype detected = Names "string list" | Scored "(string \<times> rat) list"

definition detect_doc_type :: "string \<Rightarrow> bool \<Rightarrow> detected" where
  "detect_doc_type text return_confidence =
     (if return_confidence then Scored (detect_with_confidence DOCUMENT_PATTERNS text)
      else Names (detect_names DOCUMENT_PATTERNS text))"

section \<open>Red flag rules (\<open>processor/redflag_rules.py\<close>)\<close>

datatype severity = High | Medium | Low

text \<open>
  A JSON value, as \<open>json.loads\<close> returns it. The summary of a citation is the JSON the
  language model answered, or the dictionary \<open>{"citation": text, "excerpt": ""}\<close> when
  the answer does not parse.
\<close>

datatype json = JNull | JBool bool | JNum rat | JStr string | JList "json list" | JDict "(string \<times> json) list"

record retrieved =
  score :: rat
  source :: string
  page :: "nat option"
  chunk_index :: "nat option"
  passage :: "string option"

text \<open>
  The dictionary \<open>get_citation_for_issue\<close> of \<open>processor/rag.py\<close> returns: it always has
  the three keys, so it is never empty and always has the key \<open>llm_summary\<close>.
\<close>

record citation =
  query :: string
  results :: "retrieved list"
  llm_summary :: json

text \<open>
  An issue is a dictionary in the source. The keys \<open>issue\<close> and \<open>severity\<close> are always
  present; the others are present on some issues only.
\<close>

record issue =
  issue :: string
  severity :: severity
  suggestion :: "string option"
  "section" :: "string option"
  document :: "string option"
  citation :: "citation option"

definition mk_issue :: "string \<Rightarrow> severity \<Rightarrow> string \<Rightarrow> string \<Rightarrow> issue" where
  "mk_issue i sev sug sec =
     \<lparr>issue = i, severity = sev, suggestion = Some sug, section = Some sec,
      document = None, citation = None\<rparr>"

fun find_index_from :: "('a \<Rightarrow> bool) \<Rightarrow> nat \<Rightarrow> 'a list \<Rightarrow> nat option" where
  "find_index_from P i [] = None"
| "find_index_from P i (x # xs) = (if P x then Some i else find_index_from P (Suc i) xs)"

definition is_header :: "string \<Rightarrow> bool" where
  "is_header l =
     (strip l \<noteq> [] \<and>
      (isupper l \<or> startswith l ''Section'' \<or> startswith l ''Article'' \<or> endswith l '':''))"

text \<open>
  \<open>_find_section_with_text\<close>: the first line that contains the term (case-insensitive);
  among the up to five lines before it, the first that looks like a header; else
  \<open>Line N\<close>; \<open>General\<close> when no line contains the term, and when formatting \<open>N\<close> raises
  (the body is inside \<open>try\<close> with a bare \<open>except\<close>).
\<close>

definition find_section_with_text :: "string \<Rightarrow> string \<Rightarrow> string" where
  "find_section_with_text text search_term =
     (let lines = split_on (CHR 0x0A) text
      in case find_index_from (\<lambda>line. str_contains (lower line) (lower search_term)) 0 lines of
           None \<Rightarrow> ''General''
         | Some i \<Rightarrow>
             (case find is_header (take (i - (i - 5)) (drop (i - 5) lines)) of
                Some h \<Rightarrow> strip h
              | None \<Rightarrow>
                  (case str_int (int i + 1) of
                     Inr n \<Rightarrow> ''Line '' @ n
                   | Inl e \<Rightarrow> ''General'')))"

definition check_jurisdiction :: "string \<Rightarrow> string \<Rightarrow> issue list" where
  \<open>check_jurisdiction text text_lower =
     (if re_search (word ''uae federal court'') text_lower
      then [mk_issue ''References UAE Federal Courts instead of ADGM Courts'' High
              ''Replace with "ADGM Courts" for proper jurisdiction''
              (find_section_with_text text ''uae federal court'')]
      else []) @
     (if re_search (word ''dubai court'') text_lower
      then [mk_issue ''References Dubai Courts instead of ADGM Courts'' High
              ''Update jurisdiction to ADGM Courts''
              (find_section_with_text text ''dubai court'')]
      else []) @
     (if str_contains text_lower ''jurisdiction'' \<and> \<not> re_search (word ''adgm court'') text_lower
      then [mk_issue ''Jurisdiction clause present but does not specify ADGM Courts'' High
              ''Specify ADGM Courts as the governing jurisdiction''
              (find_section_with_text text ''jurisdiction'')]
      else []) @
     (if re_search (word ''uae civil code'') text_lower \<and> \<not> re_search (word ''adgm'') text_lower
      then [mk_issue ''References UAE Civil Code without ADGM context'' Medium
              ''Specify ADGM laws take precedence where applicable''
              (find_section_with_text text ''uae civil code'')]
      else [])\<close>

definition signature_patterns :: "rx list" where
  "signature_patterns =
     [word ''signature'', word ''signed by'', word ''for and on behalf'',
      word ''executed'', word ''in witness whereof'']"

definition check_signatures :: "string \<Rightarrow> string \<Rightarrow> issue list" where
  "check_signatures text text_lower =
     (let has_signature = list_ex (\<lambda>pattern. re_search pattern text_lower) signature_patterns
      in (if \<not> has_signature
          then [mk_issue ''Missing signature block or execution clause'' High
                  ''Add proper signature block with name, title, and date fields''
                  ''End of document'']
          else []) @
         (if (str_contains text_lower ''deed'' \<or> str_contains text_lower ''power of attorney'') \<and>
             \<not> str_contains text_lower ''witness''
          then [mk_issue ''Document may require witness signature'' Medium
                  ''Consider adding witness signature requirements''
                  (find_section_with_text text ''signature'')]
          else []))"

definition check_articles_of_association :: "string \<Rightarrow> string \<Rightarrow> issue list" where
  "check_articles_of_association text text_lower =
     (if \<not> str_contains text_lower ''articles of association'' then []
      else
        (if \<not> str_contains text_lower ''share capital'' \<and> \<not> str_contains text_lower ''shares''
         then [mk_issue ''Missing share capital provisions in Articles of Association'' High
                 ''Add clause specifying authorized share capital and classes of shares''
                 ''Share Capital'']
         else []) @
        (if \<not> str_contains text_lower ''director''
         then [mk_issue ''Missing directors provisions'' High
                 ''Add provisions for appointment and powers of directors''
                 ''Directors'']
         else []) @
        (if \<not> str_contains text_lower ''objects'' \<and> \<not> str_contains text_lower ''purpose''
         then [mk_issue ''Missing company objects or purpose clause'' Medium
                 ''Include clause defining company objects and permitted activities''
                 ''Company Objects'']
         else []))"

definition check_memorandum_of_association :: "string \<Rightarrow> string \<Rightarrow> issue list" where
  "check_memorandum_of_association text text_lower =
     (if \<not> str_contains text_lower ''memorandum of association'' then []
      else
        (if \<not> re_search (Alt (word ''llc'') (Alt (word ''limited'') (word ''ltd''))) text_lower
         then [mk_issue ''Company name may not include proper legal designation'' Medium
                 ''Ensure company name includes LLC, Limited, or Ltd as appropriate''
                 ''Company Name'']
         else []) @
        (if \<not> str_contains text_lower ''registered office'' \<and>
            \<not> str_contains text_lower ''registered address''
         then [mk_issue ''Missing registered office clause'' High
                 ''Include registered office address in ADGM''
                 ''Registered Office'']
         else []))"

text \<open>\<open>\b25%\b|\btwenty[- ]five percent\b\<close>.\<close>

definition threshold_rx :: rx where
  "threshold_rx =
     Alt (word ''25%'')
         (Seq WordB (Seq (Lit ''twenty'') (Seq (Alt (Lit ''-'') (Lit '' ''))
            (Seq (Lit ''five percent'') WordB))))"

definition check_ubo_declaration :: "string \<Rightarrow> string \<Rightarrow> issue list" where
  "check_ubo_declaration text text_lower =
     (if \<not> str_contains text_lower ''ultimate beneficial owner'' \<and> \<not> str_contains text_lower ''ubo''
      then []
      else
        (if \<not> re_search threshold_rx text_lower
         then [mk_issue ''Missing 25% ownership threshold reference'' Medium
                 ''Specify 25% ownership threshold for UBO determination''
                 ''Ownership Threshold'']
         else []) @
        concat (map (\<lambda>field.
            if \<not> str_contains text_lower field
            then [mk_issue (''May be missing '' @ field @ '' field for UBO'') Medium
                    (''Ensure '' @ field @ '' is included for each UBO'')
                    ''UBO Information'']
            else [])
          [''full name'', ''address'', ''nationality'', ''date of birth'']))"

definition check_incorporation_application :: "string \<Rightarrow> string \<Rightarrow> issue list" where
  "check_incorporation_application text text_lower =
     (if \<not> str_contains text_lower ''incorporation'' \<and> \<not> str_contains text_lower ''application''
      then []
      else
        concat (map (\<lambda>(element, sec).
            if \<not> str_contains text_lower element
            then [mk_issue (''Missing '' @ element @ '' in incorporation application'') High
                    (''Include '' @ element @ '' details in the application'')
                    sec]
            else [])
          [(''proposed company name'', ''Company Name''),
           (''business activity'', ''Business Activity''),
           (''share capital'', ''Share Capital''),
           (''registered office'', ''Registered Office'')]))"

definition check_document_specific_issues :: "string \<Rightarrow> string \<Rightarrow> string \<Rightarrow> issue list" where
  "check_document_specific_issues text text_lower doc_type =
     (if str_contains (lower doc_type) ''articles of association''
        then check_articles_of_association text text_lower
      else if str_contains (lower doc_type) ''memorandum of association''
        then check_memorandum_of_association text text_lower
      else if str_contains (lower doc_type) ''ubo''
        then check_ubo_declaration text text_lower
      else if str_contains (lower doc_type) ''incorporation''
        then check_incorporation_application text text_lower
      else [])"

definition check_adgm_compliance :: "string \<Rightarrow> string \<Rightarrow> issue list" where
  "check_adgm_compliance text text_lower =
     (if \<not> str_contains text_lower ''adgm'' \<and> \<not> str_contains text_lower ''abu dhabi global market''
      then [mk_issue ''Document does not reference ADGM jurisdiction'' Medium
              ''Include reference to ADGM (Abu Dhabi Global Market) jurisdiction''
              ''General'']
      else []) @
     (if re_search (Alt (word ''usd'') (word ''us dollar'')) text_lower \<and>
         \<not> str_contains text_lower ''aed''
      then [mk_issue ''References USD without AED alternative'' Low
              ''Consider including AED (UAE Dirham) as alternative currency''
              (find_section_with_text text ''USD'')]
      else []) @
     (let has_compliance_ref =
            list_ex (\<lambda>term. str_contains text_lower term)
              [''compliant'', ''compliance'', ''regulatory'', ''regulation'']
      in if length (split text) > 200 \<and> \<not> has_compliance_ref
         then [mk_issue ''Document lacks compliance or regulatory references'' Low
                 ''Consider adding compliance statements relevant to ADGM regulations''
                 ''General'']
         else [])"

text \<open>
  The two date patterns, each with its source text: the source passes the pattern's
  text itself to \<open>_find_section_with_text\<close> as the search term.
\<close>

definition date_rx :: "char \<Rightarrow> rx" where
  "date_rx sep =
     Seq WordB (Seq (digits_between 1 2) (Seq (Lit [sep]) (Seq (digits_between 1 2)
       (Seq (Lit [sep]) (Seq (digits_between 2 4) WordB)))))"

definition date_source :: "char \<Rightarrow> string" where
  "date_source sep =
     [CHR 0x5C] @ ''b'' @ [CHR 0x5C] @ ''d{1,2}'' @ [sep] @ [CHR 0x5C] @ ''d{1,2}'' @ [sep] @
     [CHR 0x5C] @ ''d{2,4}'' @ [CHR 0x5C] @ ''b''"

definition date_patterns :: "(string \<times> rx) list" where
  "date_patterns = [(date_source (CHR ''/''), date_rx (CHR ''/'')), (date_source (CHR ''-''), date_rx (CHR ''-''))]"

definition check_language_and_formatting :: "string \<Rightarrow> string \<Rightarrow> issue list" where
  \<open>check_language_and_formatting text text_lower =
     concat (map (\<lambda>(phrase, sug).
         if str_contains text_lower phrase
         then [mk_issue (''Ambiguous language detected: "'' @ phrase @ ''"'') Low sug
                 (find_section_with_text text phrase)]
         else [])
       [(''may or may not'', ''Use definitive language instead of ambiguous terms''),
        (''as appropriate'', ''Specify exact conditions or requirements''),
        (''if necessary'', ''Define when such necessity arises''),
        (''reasonable'', ''Define what constitutes reasonable in this context'')]) @
     (if \<not> str_contains text_lower ''shall'' \<and> str_contains text_lower ''will''
      then [mk_issue ''Uses "will" instead of "shall" for obligations'' Low
              ''Use "shall" for legal obligations and "will" for future actions''
              ''General'']
      else []) @
     (if \<not> str_contains text_lower ''definition'' \<and> \<not> str_contains text_lower ''means'' \<and>
         length (split text) > 500
      then [mk_issue ''Long document may benefit from definitions section'' Low
              ''Consider adding a definitions section for key terms''
              ''Structure'']
      else []) @
     (case find (\<lambda>(src, pattern). re_search pattern text) date_patterns of
        Some (src, pattern) \<Rightarrow>
          [mk_issue ''Date format may be ambiguous'' Low
             ''Use unambiguous date format (e.g., "1st January 2024")''
             (find_section_with_text text src)]
      | None \<Rightarrow> [])\<close>

text \<open>
  \<open>run_redflag_checks\<close>: the list \<open>issues\<close> starts empty and is extended by each family
  of checks in turn. \<open>doc_type\<close> is \<open>None\<close> or a string; the empty string is false like
  \<open>None\<close>.
\<close>

definition extend_list :: "'a list \<Rightarrow> 'a list \<Rightarrow> 'a list" where
  "extend_list xs ys = xs @ ys"

definition run_redflag_checks :: "string \<Rightarrow> string option \<Rightarrow> issue list" where
  "run_redflag_checks text doc_type =
     (let issues = [];
          text_lower = lower text;
          issues = extend_list issues (check_jurisdiction text text_lower);
          issues = extend_list issues (check_signatures text text_lower);
          issues =
            (case doc_type of
               Some dt \<Rightarrow>
                 if dt \<noteq> [] then extend_list issues (check_document_specific_issues text text_lower dt)
                 else extend_list (extend_list (extend_list (extend_list issues
                        (check_articles_of_association text text_lower))
                        (check_memorandum_of_association text text_lower))
                        (check_ubo_declaration text text_lower))
                        (check_incorporation_application text text_lower)
             | None \<Rightarrow>
                 extend_list (extend_list (extend_list (extend_list issues
                   (check_articles_of_association text text_lower))
                   (check_memorandum_of_association text text_lower))
                   (check_ubo_declaration text text_lower))
                   (check_incorporation_application text text_lower));
          issues = extend_list issues (check_adgm_compliance text text_lower);
          issues = extend_list issues (check_language_and_formatting text text_lower)
      in issues)"

section \<open>Comments in a document (\<open>utils/docx_comment_helper.py\<close>)\<close>

text \<open>
  A document is the ordered list of its body paragraphs and, when it has one, its
  comments part. A paragraph is the list of the children of its \<open>w:p\<close> element; its text
  is the text of its runs, and a run that holds a comment reference has no text. The
  comments part is the list of its \<open>w:comment\<close> elements, each with its \<open>w:id\<close>
  attribute when it has one.
\<close>

datatype run_item = RunText string | CommentReference string

datatype p_child = Run "run_item list" | CommentRangeStart string | CommentRangeEnd string | ParagraphProperties

type_synonym para = "p_child list"

record comment =
  comment_id :: "string option"
  comment_author :: string
  comment_initials :: string
  comment_text :: string

record docx =
  paragraphs :: "para list"
  comments :: "comment list option"




text \<open>The markup a comment adds to a paragraph: range start, range end, reference run.\<close>

fun is_anchor :: "p_child \<Rightarrow> bool" where
  "is_anchor (CommentRangeStart cid) = True"
| "is_anchor (CommentRangeEnd cid) = True"
| "is_anchor (Run items) = (case items of [CommentReference cid] \<Rightarrow> True | _ \<Rightarrow> False)"
| "is_anchor ParagraphProperties = False"














section \<open>Chunking (\<open>processor/rag.py\<close>)\<close>

text \<open>
  \<open>_clean_text\<close> substitutes the pattern written \<open>r"\\n\\s*\\n+"\<close>: a backslash, \<open>n\<close>, a
  backslash, any number of \<open>s\<close>, a backslash, one or more \<open>n\<close>. The replacement is two
  newline characters. \<open>match_blank\<close> gives what follows a match at the start of the string.
\<close>

definition match_blank :: "string \<Rightarrow> string option" where
  "match_blank s =
     (case s of
        a # b # c # rest \<Rightarrow>
          if a = CHR 0x5C \<and> b = CHR ''n'' \<and> c = CHR 0x5C then
            (case dropWhile (\<lambda>x. x = CHR ''s'') rest of
               d # e # rest' \<Rightarrow>
                 if d = CHR 0x5C \<and> e = CHR ''n'' then Some (dropWhile (\<lambda>x. x = CHR ''n'') rest')
                 else None
             | _ \<Rightarrow> None)
          else None
      | _ \<Rightarrow> None)"

text \<open>The substitution, with the number of characters still to skip inside a match.\<close>

fun sub_blank :: "nat \<Rightarrow> string \<Rightarrow> string" where
  "sub_blank skip [] = []"
| "sub_blank (Suc k) (c # cs) = sub_blank k cs"
| "sub_blank 0 (c # cs) =
     (case match_blank (c # cs) of
        Some rest \<Rightarrow> CHR 0x0A # CHR 0x0A # sub_blank (length cs - length rest) cs
      | None \<Rightarrow> c # sub_blank 0 cs)"

definition clean_text :: "string \<Rightarrow> string" where
  "clean_text s = strip (sub_blank 0 s)"

text \<open>\<open>xs[a:b]\<close>: negative indices count from the end, and both are clamped.\<close>

definition py_slice :: "'a list \<Rightarrow> int \<Rightarrow> int \<Rightarrow> 'a list" where
  "py_slice xs a b =
     (let n = int (length xs);
          lo = (if a < 0 then max (a + n) 0 else min a n);
          hi = (if b < 0 then max (b + n) 0 else min b n)
      in take (nat (hi - lo)) (drop (nat lo) xs))"

function chunk_loop :: "string \<Rightarrow> int \<Rightarrow> int \<Rightarrow> int \<Rightarrow> string list" where
  "chunk_loop text chunk_size overlap start =
     (if start < int (length text)
      then py_slice text start (start + chunk_size) #
           chunk_loop text chunk_size overlap (max (start + chunk_size - overlap) (start + 1))
      else [])"
  by pat_completeness auto
termination
  by (relation "measure (\<lambda>(text, chunk_size, overlap, start). nat (int (length text) - start))") auto

declare chunk_loop.simps [simp del]

definition chunk_text :: "string \<Rightarrow> int \<Rightarrow> int \<Rightarrow> string list" where
  "chunk_text text chunk_size overlap =
     (let text = clean_text text
      in if int (length text) \<le> chunk_size then [text]
         else chunk_loop text chunk_size overlap 0)"

text \<open>
  Putting the chunks together again without the overlap: the first chunk, then every
  later chunk without its first \<open>overlap\<close> characters.
\<close>

definition reassemble :: "int \<Rightarrow> string list \<Rightarrow> string" where
  "reassemble overlap chunks =
     (case chunks of [] \<Rightarrow> [] | c # rest \<Rightarrow> c @ concat (map (drop (nat overlap)) rest))"

section \<open>The pipeline (\<open>processor/docx_processor.py\<close>, \<open>utils/reporter.py\<close>)\<close>

definition PROCESS_CHECKLISTS :: "(string \<times> string list) list" where
  "PROCESS_CHECKLISTS =
     [(''Company Incorporation'',
         [''Articles of Association'', ''Memorandum of Association'', ''Incorporation Application'',
          ''UBO Declaration'', ''Register of Members and Directors'']),
      (''Commercial Licensing'',
         [''Commercial License Application'', ''Business Plan'', ''Lease Agreement'',
          ''Financial Projections'']),
      (''Employment Documentation'',
         [''Employment Contract'', ''Job Description'', ''Salary Certificate''])]"

text \<open>
  \<open>len(types_set & required_set) >= max(2, len(required_docs) * 0.4)\<close>. The product is
  a float in the source; for the list lengths of the table (5, 4 and 3) the maximum is
  2 in float as in exact arithmetic.
\<close>

definition meets_threshold :: "string list \<Rightarrow> string list \<Rightarrow> bool" where
  "meets_threshold detected_types_list required_docs =
     (let overlap = card (set detected_types_list \<inter> set required_docs)
      in (of_nat overlap :: rat) \<ge> max 2 (of_nat (length required_docs) * (4 / 10)))"

fun infer_loop :: "(string \<times> string list) list \<Rightarrow> string list \<Rightarrow> string" where
  "infer_loop [] detected_types_list = ''Unknown''"
| "infer_loop ((process_name, required_docs) # rest) detected_types_list =
     (if meets_threshold detected_types_list required_docs then process_name
      else infer_loop rest detected_types_list)"

definition infer_process_from_types :: "string list \<Rightarrow> string" where
  "infer_process_from_types detected_types_list = infer_loop PROCESS_CHECKLISTS detected_types_list"

text \<open>
  The missing documents and the required count, as \<open>process_multiple_docx\<close> computes
  them from the inferred process and the pooled types.
\<close>

definition missing_and_required :: "string \<Rightarrow> string list \<Rightarrow> string list \<times> nat" where
  "missing_and_required process all_detected_types =
     (case map_of PROCESS_CHECKLISTS process of
        Some required \<Rightarrow>
          (filter (\<lambda>doc. doc \<notin> set all_detected_types) required, length required)
      | None \<Rightarrow> ([], 0))"

record report =
  process :: string
  documents_uploaded :: nat
  required_documents :: nat
  missing_document :: "string list option"
  issues_found :: "issue list"


text \<open>
  What the code reads from and writes to outside itself. \<open>files path\<close> is what
  \<open>Document(path)\<close> gives: the document, or the message of the exception it raises.
  \<open>can_save path doc\<close> says whether \<open>doc.save(path)\<close> succeeds. \<open>makedirs_ok\<close> says
  whether \<open>os.makedirs(dir, exist_ok=True)\<close> succeeds. \<open>can_write_report path report\<close>
  says whether \<open>save_report_json(report, path)\<close> succeeds: it raises when the file cannot
  be opened and when the report cannot be serialised or encoded (a name that holds a
  lone surrogate, for one), so it depends on the report as well as on the path.
  \<open>path_exists\<close> is \<open>os.path.exists\<close>. \<open>retrieve query index_path meta_path top_k\<close> is
  \<open>get_citation_for_issue\<close> of \<open>processor/rag.py\<close>, which calls the embedding and
  completion services: its dictionary, or the message of the exception it raises.
  \<open>reports\<close> holds the JSON reports written so far.
\<close>

record world =
  files :: "string \<Rightarrow> string + docx"
  can_save :: "string \<Rightarrow> docx \<Rightarrow> bool"
  makedirs_ok :: "string \<Rightarrow> bool"
  can_write_report :: "string \<Rightarrow> report \<Rightarrow> bool"
  path_exists :: "string \<Rightarrow> bool"
  retrieve :: "string \<Rightarrow> string \<Rightarrow> string \<Rightarrow> nat \<Rightarrow> string + citation"
  reports :: "string \<Rightarrow> report option"




record rag_retriever =
  index_path :: string
  meta_path :: string
  available :: bool

definition RAGRetriever :: "world \<Rightarrow> string \<Rightarrow> string \<Rightarrow> rag_retriever" where
  "RAGRetriever w ip mp =
     \<lparr>index_path = ip, meta_path = mp, available = (path_exists w ip \<and> path_exists w mp)\<rparr>"

text \<open>
  \<open>RAGRetriever.get_citation_for_issue\<close>: \<open>None\<close> when the retriever is not available,
  and \<open>None\<close> when the retrieval raises (\<open>except Exception\<close>). The result is \<open>Inl\<close> where
  the method itself would raise.
\<close>

definition get_citation_for_issue ::
  "world \<Rightarrow> rag_retriever \<Rightarrow> string \<Rightarrow> py_error + citation option" where
  "get_citation_for_issue w r i =
     (if \<not> available r then Inr None
      else (case retrieve w i (index_path r) (meta_path r) 3 of
              Inl e \<Rightarrow> Inr None
            | Inr c \<Rightarrow> Inr (Some c)))"





section \<open>Example inputs\<close>

text \<open>
  A world with no file at all, where no index exists and every retrieval raises, and
  the same world with both index files present.
\<close>

definition bare_world :: world where
  "bare_world =
     \<lparr>files = (\<lambda>p. Inl ''Package not found''), can_save = (\<lambda>p d. True),
      makedirs_ok = (\<lambda>d. True), can_write_report = (\<lambda>p r. True),
      path_exists = (\<lambda>p. False),
      retrieve = (\<lambda>q i m k. Inl ''OPENAI_API_KEY env var not set''),
      reports = (\<lambda>p. None)\<rparr>"

definition indexed_world :: world where
  "indexed_world = bare_world\<lparr>path_exists := (\<lambda>p. True)\<rparr>"








text \<open>
  The text of \<open>test_articles_of_association_detection\<close> in \<open>tests/test_processor.py\<close>.
\<close>

definition articles_test_text :: string where
  "articles_test_text =
     [CHR 0x0A] @ ''        ARTICLES OF ASSOCIATION'' @
     [CHR 0x0A] @ ''        of'' @
     [CHR 0x0A] @ ''        DemoCorp LLC'' @
     [CHR 0x0A] @ ''        '' @
     [CHR 0x0A] @ ''        1. COMPANY NAME'' @
     [CHR 0x0A] @ ''        The name of the company is DemoCorp LLC.'' @
     [CHR 0x0A] @ ''        '' @
     [CHR 0x0A] @ ''        2. SHARE CAPITAL'' @
     [CHR 0x0A] @ ''        The authorized share capital is AED 150,000.'' @
     [CHR 0x0A] @ ''        '' @
     [CHR 0x0A] @ ''        3. DIRECTORS'' @
     [CHR 0x0A] @ ''        The company shall have at least one director.'' @
     [CHR 0x0A] @ ''        ''"

section \<open>Process inference\<close>

lemma infer_loop_find:
  "infer_loop table types =
     (case find (\<lambda>(process_name, required). meets_threshold types required) table of
        Some (process_name, required) \<Rightarrow> process_name
      | None \<Rightarrow> ''Unknown'')"
  by (induction table) auto

lemma unknown_is_no_process: "map_of PROCESS_CHECKLISTS ''Unknown'' = None"
  by (simp add: PROCESS_CHECKLISTS_def)

lemma infer_loop_key:
  "infer_loop table types \<noteq> ''Unknown'' \<Longrightarrow> distinct (map fst table) \<Longrightarrow>
   \<exists>required. map_of table (infer_loop table types) = Some required \<and>
              meets_threshold types required"
proof (induction table)
  case Nil
  then show ?case by simp
next
  case (Cons entry table)
  obtain process_name required where entry: "entry = (process_name, required)"
    by (cases entry)
  show ?case
  proof (cases rule: case_split [of "meets_threshold types required"])
    case True
    then show ?thesis by (simp add: entry)
  next
    case False
    have rest: "infer_loop table types \<noteq> ''Unknown''"
      using Cons.prems(1) False by (simp add: entry)
    then obtain req where req:
      "map_of table (infer_loop table types) = Some req" "meets_threshold types req"
      using Cons.IH Cons.prems(2) by auto
    have "infer_loop table types \<in> fst ` set table"
      using req(1) by (metis map_of_eq_None_iff option.distinct(1))
    then have "infer_loop table types \<noteq> process_name"
      using Cons.prems(2) by (auto simp: entry)
    then show ?thesis using req False by (simp add: entry)
  qed
qed

lemma checklists_distinct: "distinct (map fst PROCESS_CHECKLISTS)"
  by (simp add: PROCESS_CHECKLISTS_def)

text \<open>
  C7. For every pooled list of detected types, \<open>infer_process_from_types\<close> returns the
  first process of the table, in its order, whose required documents share at least
  \<open>max(2, 0.4 * required_count)\<close> elements with the pooled types, and \<open>Unknown\<close> when there
  is none. For the pooled types Articles of Association, Memorandum of Association and
  UBO Declaration the process is Company Incorporation and the missing documents are
  Incorporation Application and Register of Members and Directors. When the process is
  \<open>Unknown\<close> no missing document is computed (the list is empty and the required count
  is 0); when a process is identified, the missing documents are its required documents
  that are not among the pooled types.
\<close>

theorem infer_process_first_match:
  "infer_process_from_types types =
     (case find (\<lambda>(process_name, required).
                   (of_nat (card (set types \<inter> set required)) :: rat)
                     \<ge> max 2 (of_nat (length required) * (4 / 10)))
             PROCESS_CHECKLISTS of
        Some (process_name, required) \<Rightarrow> process_name
      | None \<Rightarrow> ''Unknown'') \<and>
   infer_process_from_types
     [''Articles of Association'', ''Memorandum of Association'', ''UBO Declaration'']
     = ''Company Incorporation'' \<and>
   missing_and_required ''Company Incorporation''
     [''Articles of Association'', ''Memorandum of Association'', ''UBO Declaration'']
     = ([''Incorporation Application'', ''Register of Members and Directors''], 5) \<and>
   (infer_process_from_types types = ''Unknown'' \<longrightarrow>
      missing_and_required (infer_process_from_types types) types = ([], 0)) \<and>
   (infer_process_from_types types \<noteq> ''Unknown'' \<longrightarrow>
      (\<exists>required. map_of PROCESS_CHECKLISTS (infer_process_from_types types) = Some required \<and>
         missing_and_required (infer_process_from_types types) types =
           (filter (\<lambda>doc. doc \<notin> set types) required, length required)))"
proof (intro conjI impI)
  show "infer_process_from_types types =
     (case find (\<lambda>(process_name, required).
                   (of_nat (card (set types \<inter> set required)) :: rat)
                     \<ge> max 2 (of_nat (length required) * (4 / 10)))
             PROCESS_CHECKLISTS of
        Some (process_name, required) \<Rightarrow> process_name
      | None \<Rightarrow> ''Unknown'')"
    unfolding infer_process_from_types_def infer_loop_find meets_threshold_def Let_def ..
next
  show "infer_process_from_types
     [''Articles of Association'', ''Memorandum of Association'', ''UBO Declaration'']
     = ''Company Incorporation''"
    by code_simp
next
  show "missing_and_required ''Company Incorporation''
     [''Articles of Association'', ''Memorandum of Association'', ''UBO Declaration'']
     = ([''Incorporation Application'', ''Register of Members and Directors''], 5)"
    by code_simp
next
  assume "infer_process_from_types types = ''Unknown''"
  then show "missing_and_required (infer_process_from_types types) types = ([], 0)"
    by (simp add: missing_and_required_def unknown_is_no_process)
next
  assume "infer_process_from_types types \<noteq> ''Unknown''"
  then obtain required where
    "map_of PROCESS_CHECKLISTS (infer_process_from_types types) = Some required"
    unfolding infer_process_from_types_def
    using infer_loop_key [OF _ checklists_distinct] by blast
  then show "\<exists>required. map_of PROCESS_CHECKLISTS (infer_process_from_types types) = Some required \<and>
         missing_and_required (infer_process_from_types types) types =
           (filter (\<lambda>doc. doc \<notin> set types) required, length required)"
    by (simp add: missing_and_required_def)
qed

theorem infer_process_first_match_witness:
  "infer_process_from_types [''Unknown Document''] = ''Unknown'' \<and>
   missing_and_required ''Unknown'' [''Unknown Document''] = ([], 0) \<and>
   infer_process_from_types [''Employment Contract'', ''Job Description''] = ''Employment Documentation'' \<and>
   missing_and_required ''Employment Documentation'' [''Employment Contract'', ''Job Description'']
     = ([''Salary Certificate''], 3)"
proof -
  have u: "infer_process_from_types [''Unknown Document''] = ''Unknown''"
    by code_simp
  have e: "infer_process_from_types [''Employment Contract'', ''Job Description'']
             = ''Employment Documentation''"
    by code_simp
  have m: "map_of PROCESS_CHECKLISTS ''Employment Documentation''
             = Some [''Employment Contract'', ''Job Description'', ''Salary Certificate'']"
    by (simp add: PROCESS_CHECKLISTS_def)
  have ne: "infer_process_from_types [''Employment Contract'', ''Job Description''] \<noteq> ''Unknown''"
    unfolding e by simp
  have "missing_and_required (infer_process_from_types [''Unknown Document''])
          [''Unknown Document''] = ([], 0)"
    by (rule infer_process_first_match [of "[''Unknown Document'']", THEN conjunct2,
          THEN conjunct2, THEN conjunct2, THEN conjunct1, THEN mp, OF u])
  then have 1: "missing_and_required ''Unknown'' [''Unknown Document''] = ([], 0)"
    unfolding u .
  have "\<exists>required.
          map_of PROCESS_CHECKLISTS
            (infer_process_from_types [''Employment Contract'', ''Job Description'']) = Some required \<and>
          missing_and_required
            (infer_process_from_types [''Employment Contract'', ''Job Description''])
            [''Employment Contract'', ''Job Description''] =
          (filter (\<lambda>doc. doc \<notin> set [''Employment Contract'', ''Job Description'']) required,
           length required)"
    by (rule infer_process_first_match [of "[''Employment Contract'', ''Job Description'']",
          THEN conjunct2, THEN conjunct2, THEN conjunct2, THEN conjunct2, THEN mp, OF ne])
  then have 2: "missing_and_required ''Employment Documentation''
             [''Employment Contract'', ''Job Description''] = ([''Salary Certificate''], 3)"
    unfolding e m by simp
  from u e 1 2 show ?thesis by simp
qed

section \<open>Citations never raise\<close>

text \<open>
  C10. For every query string, \<open>RAGRetriever.get_citation_for_issue\<close> never raises. The
  availability is decided once, when the retriever is constructed, as the existence of
  both the index file and the metadata file; a retriever that is not available returns
  \<open>None\<close> whatever the files are at the time of the call; when the retrieval raises, the
  result is \<open>None\<close>; otherwise it is the retrieval's dictionary.
\<close>

theorem get_citation_never_raises:
  "(\<exists>res. get_citation_for_issue w r q = Inr res) \<and>
   available (RAGRetriever w0 ip mp) = (path_exists w0 ip \<and> path_exists w0 mp) \<and>
   (\<not> (path_exists w0 ip \<and> path_exists w0 mp) \<longrightarrow>
      get_citation_for_issue w (RAGRetriever w0 ip mp) q = Inr None) \<and>
   (\<forall>e. retrieve w q (index_path r) (meta_path r) 3 = Inl e \<longrightarrow>
      get_citation_for_issue w r q = Inr None) \<and>
   (\<forall>c. available r \<and> retrieve w q (index_path r) (meta_path r) 3 = Inr c \<longrightarrow>
      get_citation_for_issue w r q = Inr (Some c))"
  by (auto simp: get_citation_for_issue_def RAGRetriever_def split: sum.splits)

theorem get_citation_never_raises_witness:
  "get_citation_for_issue indexed_world
     (RAGRetriever bare_world ''resources/adgm_index.faiss'' ''resources/adgm_meta.json'')
     ''Missing directors provisions'' = Inr None \<and>
   get_citation_for_issue indexed_world
     (RAGRetriever indexed_world ''resources/adgm_index.faiss'' ''resources/adgm_meta.json'')
     ''Missing directors provisions'' = Inr None"
proof -
  let ?ip = "''resources/adgm_index.faiss''" and ?mp = "''resources/adgm_meta.json''"
  let ?q = "''Missing directors provisions''"
  have absent: "\<not> (path_exists bare_world ?ip \<and> path_exists bare_world ?mp)"
    by (simp add: bare_world_def)
  have raises: "retrieve indexed_world ?q (index_path (RAGRetriever indexed_world ?ip ?mp))
                  (meta_path (RAGRetriever indexed_world ?ip ?mp)) 3
                = Inl ''OPENAI_API_KEY env var not set''"
    by (simp add: indexed_world_def bare_world_def)
  have 1: "get_citation_for_issue indexed_world (RAGRetriever bare_world ?ip ?mp) ?q = Inr None"
    by (rule get_citation_never_raises [of indexed_world _ ?q bare_world ?ip ?mp,
          THEN conjunct2, THEN conjunct2, THEN conjunct1, THEN mp, OF absent])
  have 2: "get_citation_for_issue indexed_world (RAGRetriever indexed_world ?ip ?mp) ?q = Inr None"
    by (rule get_citation_never_raises [of indexed_world "RAGRetriever indexed_world ?ip ?mp" ?q,
          THEN conjunct2, THEN conjunct2, THEN conjunct2, THEN conjunct1, THEN spec, THEN mp,
          OF raises])
  from 1 2 show ?thesis by simp
qed

section \<open>Floating-point steps of the classifier\<close>

text \<open>
  The binary64 values of the literals of \<open>type_detector.py\<close>, and every rounded
  addition, subtraction and division that \<open>_calculate_confidence\<close> performs on the
  three texts examined below.
\<close>

lemma to_double_half: "to_double (1 / 2) = 1 / 2"
  by code_simp

lemma to_double_tenth: "to_double (1 / 10) = 3602879701896397 / 36028797018963968"
  by code_simp

lemma to_double_three_twentieths: "to_double (3 / 20) = 5404319552844595 / 36028797018963968"
  by code_simp

lemma to_double_fifth: "to_double (1 / 5) = 3602879701896397 / 18014398509481984"
  by code_simp

lemma to_double_three_fifths: "to_double (3 / 5) = 5404319552844595 / 9007199254740992"
  by code_simp

lemma to_double_three_tenths: "to_double (3 / 10) = 5404319552844595 / 18014398509481984"
  by code_simp

lemma float_step_1: "fadd 0 (3602879701896397 / 36028797018963968) = 3602879701896397 / 36028797018963968"
  by code_simp

lemma float_step_2: "fadd 0 (1 / 2) = 1 / 2"
  by code_simp

lemma float_step_3: "fadd (3602879701896397 / 36028797018963968) (5404319552844595 / 36028797018963968) = 1 / 4"
  by code_simp

lemma float_step_4: "fadd (1 / 2) (3602879701896397 / 36028797018963968) = 5404319552844595 / 9007199254740992"
  by code_simp

lemma float_step_5: "fadd (1 / 2) (1 / 2) = 1"
  by code_simp

lemma float_step_6: "fadd (5404319552844595 / 9007199254740992) (3602879701896397 / 36028797018963968) = 3152519739159347 / 4503599627370496"
  by code_simp

lemma float_step_7: "fadd (3152519739159347 / 4503599627370496) (3602879701896397 / 36028797018963968) = 7205759403792793 / 9007199254740992"
  by code_simp

lemma float_step_8: "fadd (7205759403792793 / 9007199254740992) (5404319552844595 / 36028797018963968) = 4278419646001971 / 4503599627370496"
  by code_simp

lemma float_step_9: "fadd (4278419646001971 / 4503599627370496) (5404319552844595 / 36028797018963968) = 4953959590107545 / 4503599627370496"
  by code_simp

lemma float_step_10: "fadd 1 (3602879701896397 / 36028797018963968) = 2476979795053773 / 2251799813685248"
  by code_simp

lemma float_step_11: "fadd 1 (1 / 2) = 3 / 2"
  by code_simp

lemma float_step_12: "fadd (2476979795053773 / 2251799813685248) (3602879701896397 / 36028797018963968) = 1351079888211149 / 1125899906842624"
  by code_simp

lemma float_step_13: "fadd (1351079888211149 / 1125899906842624) (3602879701896397 / 36028797018963968) = 2927339757790823 / 2251799813685248"
  by code_simp

lemma float_step_14: "fadd (2927339757790823 / 2251799813685248) (3602879701896397 / 36028797018963968) = 788129934789837 / 562949953421312"
  by code_simp

lemma float_step_15: "fadd (788129934789837 / 562949953421312) (5404319552844595 / 36028797018963968) = 3490289711212135 / 2251799813685248"
  by code_simp

lemma float_step_16: "fadd (3 / 2) (3602879701896397 / 36028797018963968) = 3602879701896397 / 2251799813685248"
  by code_simp

lemma float_step_17: "fadd (3490289711212135 / 2251799813685248) (5404319552844595 / 36028797018963968) = 1914029841632461 / 1125899906842624"
  by code_simp

lemma float_step_18: "fadd (3602879701896397 / 2251799813685248) (3602879701896397 / 36028797018963968) = 1914029841632461 / 1125899906842624"
  by code_simp

lemma float_step_19: "fadd (1914029841632461 / 1125899906842624) (3602879701896397 / 36028797018963968) = 4053239664633447 / 2251799813685248"
  by code_simp

lemma float_step_20: "fadd (1914029841632461 / 1125899906842624) (5404319552844595 / 36028797018963968) = 4165829655317709 / 2251799813685248"
  by code_simp

lemma float_step_21: "fadd (4053239664633447 / 2251799813685248) (3602879701896397 / 36028797018963968) = 1069604911500493 / 562949953421312"
  by code_simp

lemma float_step_22: "fadd (4053239664633447 / 2251799813685248) (5404319552844595 / 36028797018963968) = 2195504818343117 / 1125899906842624"
  by code_simp

lemma float_step_23: "fadd (1069604911500493 / 562949953421312) (3602879701896397 / 36028797018963968) = 4503599627370497 / 2251799813685248"
  by code_simp

lemma float_step_24: "fadd (1069604911500493 / 562949953421312) (5404319552844595 / 36028797018963968) = 4616189618054759 / 2251799813685248"
  by code_simp

lemma float_step_25: "fadd (2195504818343117 / 1125899906842624) (5404319552844595 / 36028797018963968) = 4728779608739021 / 2251799813685248"
  by code_simp

lemma float_step_26: "fadd (4503599627370497 / 2251799813685248) (5404319552844595 / 36028797018963968) = 1210342399855821 / 562949953421312"
  by code_simp

lemma float_step_27: "fadd (4616189618054759 / 2251799813685248) (5404319552844595 / 36028797018963968) = 2476979795053773 / 1125899906842624"
  by code_simp

lemma float_step_28: "fadd (1210342399855821 / 562949953421312) (5404319552844595 / 36028797018963968) = 5179139571476071 / 2251799813685248"
  by code_simp

lemma float_step_29: "fadd (2476979795053773 / 1125899906842624) (5404319552844595 / 36028797018963968) = 5291729562160333 / 2251799813685248"
  by code_simp

lemma float_step_30: "fadd (5179139571476071 / 2251799813685248) (5404319552844595 / 36028797018963968) = 2758454771764429 / 1125899906842624"
  by code_simp

lemma float_step_31: "fadd (5291729562160333 / 2251799813685248) (5404319552844595 / 36028797018963968) = 5 / 2"
  by code_simp

lemma float_step_32: "fdiv (- (3602879701896397 / 18014398509481984)) (1914029841632461 / 1125899906842624) = - (4238682002231055 / 36028797018963968)"
  by code_simp

lemma float_step_33: "fdiv (- (3602879701896397 / 18014398509481984)) (5291729562160333 / 2251799813685248) = - (6132561194717271 / 72057594037927936)"
  by code_simp

lemma float_step_34: "fdiv (- (3602879701896397 / 36028797018963968)) (1914029841632461 / 1125899906842624) = - (4238682002231055 / 72057594037927936)"
  by code_simp

lemma float_step_35: "fdiv (3602879701896397 / 36028797018963968) (5291729562160333 / 2251799813685248) = 6132561194717271 / 144115188075855872"
  by code_simp

lemma float_step_36: "fdiv (3602879701896397 / 36028797018963968) (5 / 2) = 5764607523034235 / 144115188075855872"
  by code_simp

lemma float_step_37: "fdiv (1 / 4) (5 / 2) = 3602879701896397 / 36028797018963968"
  by code_simp

lemma float_step_38: "fdiv (5404319552844595 / 9007199254740992) (4165829655317709 / 2251799813685248) = 5842507624696859 / 18014398509481984"
  by code_simp

lemma float_step_39: "fdiv (3152519739159347 / 4503599627370496) (4165829655317709 / 2251799813685248) = 6816258895479669 / 18014398509481984"
  by code_simp

lemma float_step_40: "fdiv (4953959590107545 / 4503599627370496) (2476979795053773 / 1125899906842624) = 4503599627370495 / 9007199254740992"
  by code_simp

lemma float_step_41: "fsub 0 (3602879701896397 / 18014398509481984) = - (3602879701896397 / 18014398509481984)"
  by code_simp

lemma float_step_42: "fsub (3602879701896397 / 36028797018963968) (3602879701896397 / 18014398509481984) = - (3602879701896397 / 36028797018963968)"
  by code_simp

lemmas float_steps =
  float_step_1 float_step_2 float_step_3 float_step_4 float_step_5 float_step_6
  float_step_7 float_step_8 float_step_9 float_step_10 float_step_11 float_step_12
  float_step_13 float_step_14 float_step_15 float_step_16 float_step_17 float_step_18
  float_step_19 float_step_20 float_step_21 float_step_22 float_step_23 float_step_24
  float_step_25 float_step_26 float_step_27 float_step_28 float_step_29 float_step_30
  float_step_31 float_step_32 float_step_33 float_step_34 float_step_35 float_step_36
  float_step_37 float_step_38 float_step_39 float_step_40 float_step_41 float_step_42

lemmas float_literals =
  to_double_half to_double_tenth to_double_three_twentieths to_double_fifth
  to_double_three_fifths

lemma fdiv_zero: "fdiv 0 t = 0"
  by (simp add: fdiv_def to_double_def)

lemma startswith_Nil: "startswith s [] = True"
  by (simp add: startswith_def)

lemma startswith_Cons: "startswith (c # cs) (p # ps) = (c = p \<and> startswith cs ps)"
  by (auto simp: startswith_def)

lemma startswith_empty: "startswith [] (p # ps) = False"
  by (simp add: startswith_def)

section \<open>Ranked classification\<close>


lemma set_insert_desc: "set (insert_desc x ys) = insert x (set ys)"
  by (induction ys) auto

lemma ranked_insert_desc:
  "sorted_wrt (\<lambda>a b. snd a \<ge> snd b) ys \<Longrightarrow> sorted_wrt (\<lambda>a b. snd a \<ge> snd b) (insert_desc x ys)"
  by (induction ys) (auto simp: set_insert_desc)

lemma ranked_sort_desc: "sorted_wrt (\<lambda>a b. snd a \<ge> snd b) (sort_desc xs)"
  unfolding sort_desc_def by (induction xs) (auto intro: ranked_insert_desc)

lemma set_sort_desc: "set (sort_desc xs) = set xs"
  unfolding sort_desc_def by (induction xs) (auto simp: set_insert_desc)

lemma sort_desc_nonempty: "xs \<noteq> [] \<Longrightarrow> sort_desc xs \<noteq> []"
  using set_sort_desc [of xs] by (metis set_empty)

lemma strip_empty_iff: "strip s = [] \<longleftrightarrow> list_all is_space s"
proof
  assume "strip s = []"
  then have a: "list_all is_space (dropWhile is_space s)"
    by (simp add: strip_def list_all_iff)
  have "dropWhile is_space s = []"
  proof (rule ccontr)
    assume ne: "dropWhile is_space s \<noteq> []"
    then have "\<not> is_space (hd (dropWhile is_space s))" by (rule hd_dropWhile)
    moreover have "hd (dropWhile is_space s) \<in> set (dropWhile is_space s)"
      using ne by simp
    ultimately show False using a by (simp add: list_all_iff)
  qed
  then show "list_all is_space s"
    by (simp add: list_all_iff)
next
  assume "list_all is_space s"
  then have "dropWhile is_space s = []"
    by (simp add: list_all_iff)
  then show "strip s = []" unfolding strip_def by (simp only: rev.simps dropWhile.simps)
qed

lemma is_blank_iff: "is_blank s \<longleftrightarrow> list_all is_space s"
  by (auto simp: is_blank_def strip_empty_iff)

text \<open>
  C2. For every text, \<open>detect_doc_type\<close> with \<open>return_confidence=True\<close> returns a list of
  (type, confidence) pairs that is not empty and is ordered by non-increasing
  confidence. For a text that is empty or consists of whitespace only it returns
  exactly \<open>[("Unknown", 0.0)]\<close>, whatever the pattern table is: no pattern is matched.
  Confidences are the binary64 numbers the source computes.
\<close>

theorem detect_doc_type_ranked:
  "(\<exists>ranked. detect_doc_type text True = Scored ranked \<and> ranked \<noteq> [] \<and>
      sorted_wrt (\<lambda>a b. snd a \<ge> snd b) ranked) \<and>
   (list_all is_space text \<longrightarrow>
      detect_doc_type text True = Scored [(''Unknown'', 0)] \<and>
      (\<forall>table. detect_with_confidence table text = [(''Unknown'', 0)]))"
proof (intro conjI impI allI)
  show "\<exists>ranked. detect_doc_type text True = Scored ranked \<and> ranked \<noteq> [] \<and>
      sorted_wrt (\<lambda>a b. snd a \<ge> snd b) ranked"
    by (simp add: detect_doc_type_def detect_with_confidence_def Let_def
          ranked_sort_desc sort_desc_nonempty)
next
  assume "list_all is_space text"
  then have b: "is_blank text" by (simp add: is_blank_iff)
  then show "detect_doc_type text True = Scored [(''Unknown'', 0)]"
    by (simp add: detect_doc_type_def detect_with_confidence_def)
  fix table
  from b show "detect_with_confidence table text = [(''Unknown'', 0)]"
    by (simp add: detect_with_confidence_def)
qed

theorem detect_doc_type_ranked_witness:
  "list_all is_space [CHR '' '', CHR 0x09, CHR 0x0A] \<and>
   detect_doc_type [CHR '' '', CHR 0x09, CHR 0x0A] True = Scored [(''Unknown'', 0)] \<and>
   detect_with_confidence [] [CHR '' '', CHR 0x09, CHR 0x0A] = [(''Unknown'', 0)]"
proof -
  have h: "list_all is_space [CHR '' '', CHR 0x09, CHR 0x0A]"
    by (simp add: is_space_def)
  from detect_doc_type_ranked [of "[CHR '' '', CHR 0x09, CHR 0x0A]", THEN conjunct2, THEN mp, OF h] h
  show ?thesis by blast
qed

text \<open>
  A text at a threshold. One primary keyword, three secondary keywords and both
  structure indicators of the Non-Disclosure Agreement give the score
  \<open>0.5 + 0.1 + 0.1 + 0.1 + 0.15 + 0.15\<close>, which is \<open>1.0999999999999999\<close> in binary64, over
  the total \<open>2.2\<close>: the confidence is just below the threshold \<open>0.5\<close> that exact arithmetic
  would reach, and the result is the fallback type.
\<close>

lemma nda_confidence:
  "confidence_of_counts 3 4 2 1 3 2 0 = 4503599627370495 / 9007199254740992"
  by (simp add: confidence_of_counts_def eval_nat_numeral float_literals float_steps Let_def)

lemma nda_normalized:
  "collapse_ws (lower ''non-disclosure agreement confidential information'')
     = ''non-disclosure agreement confidential information''"
  by code_simp

lemma nda_not_blank:
  "is_blank ''non-disclosure agreement confidential information'' = False"
  by code_simp

lemma nda_no_type:
  "detected_in DOCUMENT_PATTERNS ''non-disclosure agreement confidential information'' = []"
  by (simp add: DOCUMENT_PATTERNS_def mk_patterns_def calculate_confidence_def count_found_def
      confidence_of_counts_def float_literals float_steps fdiv_zero
      startswith_Nil startswith_Cons startswith_empty Let_def)

lemma nda_fallback:
  "fallback_detection ''non-disclosure agreement confidential information''
     = ''General Agreement''"
  by (simp add: fallback_detection_def legal_indicators_def
      startswith_Nil startswith_Cons startswith_empty)

lemma nda_not_detected:
  "detect_doc_type ''non-disclosure agreement confidential information'' True
     = Scored [(''General Agreement'', to_double (3 / 10))]"
  by (simp add: detect_doc_type_def detect_with_confidence_def nda_not_blank nda_normalized
      nda_no_type nda_fallback del: detected_in.simps)

section \<open>The two end-to-end scenarios the code fails\<close>

lemma scenario_normalized:
  "collapse_ws (lower ''ARTICLES OF ASSOCIATION share capital director'')
     = ''articles of association share capital director''"
  by code_simp

lemma scenario_not_blank:
  "is_blank ''ARTICLES OF ASSOCIATION share capital director'' = False"
  by code_simp

lemma scenario_confidence:
  "calculate_confidence ''articles of association share capital director''
     (mk_patterns
        [''articles of association'', ''articles of incorporation'']
        [''share capital'', ''directors'', ''shareholders'', ''company constitution'']
        [''memorandum'']
        [''article 1'', ''article 2'', ''clause'']
        (to_double (6 / 10)))
   = 5842507624696859 / 18014398509481984"
  by (simp add: mk_patterns_def calculate_confidence_def count_found_def
      confidence_of_counts_def float_literals float_steps fdiv_zero
      startswith_Nil startswith_Cons startswith_empty Let_def)

lemma scenario_no_type:
  "detected_in DOCUMENT_PATTERNS ''articles of association share capital director'' = []"
  by (simp add: DOCUMENT_PATTERNS_def mk_patterns_def calculate_confidence_def count_found_def
      confidence_of_counts_def float_literals float_steps fdiv_zero
      startswith_Nil startswith_Cons startswith_empty Let_def)

lemma scenario_fallback:
  "fallback_detection ''articles of association share capital director''
     = ''Short Form/Notice''"
  by (simp add: fallback_detection_def legal_indicators_def split_def is_space_def
      startswith_Nil startswith_Cons startswith_empty Let_def)

text \<open>
  C3. The claim: a text that contains "ARTICLES OF ASSOCIATION", "share capital" and
  "director" is classified as Articles of Association with confidence at least 0.6.
  On the text below the confidence of Articles of Association is 0.6 / 1.85, below its
  threshold, no type reaches its threshold, and the classifier returns the fallback
  type with confidence 0.3.
\<close>

theorem articles_scenario_not_detected:
  "detect_doc_type ''ARTICLES OF ASSOCIATION share capital director'' True
     = Scored [(''Short Form/Notice'', to_double (3 / 10))]"
  by (simp add: detect_doc_type_def detect_with_confidence_def scenario_not_blank
      scenario_normalized scenario_no_type scenario_fallback del: detected_in.simps)

text \<open>
  C4. The claim: the rule engine run on the text below produces a High-severity issue
  that names UAE Federal Courts. The pattern \<open>\buae federal court\b\<close> needs a word
  boundary after \<open>court\<close>, and the text has \<open>courts\<close>: the jurisdiction check produces
  nothing, and the two issues of the run are about the signature block and the missing
  reference to ADGM.
\<close>

theorem federal_courts_not_flagged:
  "map (\<lambda>i. (issue i, severity i))
     (run_redflag_checks ''This agreement shall be governed by UAE Federal Courts.'' None) =
   [(''Missing signature block or execution clause'', High),
    (''Document does not reference ADGM jurisdiction'', Medium)]"
  by code_simp

section \<open>Integers as decimal strings\<close>


















section \<open>Comment ids\<close>














section \<open>Annotation keeps the paragraphs\<close>


lemma plain_wrapped:
  "filter (\<lambda>x. \<not> is_anchor x) (CommentRangeStart c # p @ [CommentRangeEnd c, Run [CommentReference c]])
     = filter (\<lambda>x. \<not> is_anchor x) p"
  by simp


















section \<open>Chunks\<close>

lemma py_slice_window:
  "0 \<le> a \<Longrightarrow> 0 \<le> n \<Longrightarrow> py_slice xs a (a + n) = take (nat n) (drop (nat a) xs)"
proof -
  assume a: "0 \<le> a" and n: "0 \<le> n"
  show ?thesis
  proof (cases rule: case_split [of "a \<le> int (length xs)"])
    case True
    have "nat (min (a + n) (int (length xs)) - a) = min (nat n) (length xs - nat a)"
      using a n True by (auto simp: min_def)
    then show ?thesis using a n True
      by (simp add: py_slice_def Let_def min_absorb1 take_take [symmetric] del: take_take)
  next
    case False
    then show ?thesis using a n by (simp add: py_slice_def Let_def)
  qed
qed

lemma chunk_loop_reassemble:
  "0 \<le> ov \<Longrightarrow> ov < cs \<Longrightarrow> 0 \<le> start \<Longrightarrow>
     concat (map (drop (nat ov)) (chunk_loop t cs ov start)) = drop (nat (start + ov)) t"
proof (induction t cs ov start rule: chunk_loop.induct)
  case (1 t cs ov start)
  show ?case
  proof (cases rule: case_split [of "start < int (length t)"])
    case True
    have nxt: "max (start + cs - ov) (start + 1) = start + cs - ov"
      using "1.prems" by simp
    have ih: "concat (map (drop (nat ov)) (chunk_loop t cs ov (start + cs - ov)))
                = drop (nat (start + cs)) t"
      using "1.IH" [OF True] "1.prems" unfolding nxt by simp
    have "drop (nat ov) (py_slice t start (start + cs))
            = take (nat cs - nat ov) (drop (nat ov) (drop (nat start) t))"
      using "1.prems" by (simp add: py_slice_window drop_take)
    also have "\<dots> = take (nat (cs - ov)) (drop (nat (start + ov)) t)"
      using "1.prems" by (simp add: nat_add_distrib nat_diff_distrib add.commute)
    finally have hd: "drop (nat ov) (py_slice t start (start + cs))
                        = take (nat (cs - ov)) (drop (nat (start + ov)) t)" .
    have e: "nat (cs - ov) + nat (start + ov) = nat (start + cs)"
      using "1.prems" by simp
    have tl: "drop (nat (start + cs)) t = drop (nat (cs - ov)) (drop (nat (start + ov)) t)"
      by (simp add: e)
    have "concat (map (drop (nat ov)) (chunk_loop t cs ov start))
            = drop (nat ov) (py_slice t start (start + cs)) @
              concat (map (drop (nat ov)) (chunk_loop t cs ov (start + cs - ov)))"
      using True by (subst chunk_loop.simps) (simp add: nxt)
    also have "\<dots> = drop (nat (start + ov)) t"
      unfolding hd ih tl by (rule append_take_drop_id)
    finally show ?thesis .
  next
    case False
    then have "chunk_loop t cs ov start = []" by (subst chunk_loop.simps) simp
    moreover have "drop (nat (start + ov)) t = []" using False "1.prems" by simp
    ultimately show ?thesis by simp
  qed
qed

lemma chunk_loop_nth:
  "0 \<le> start \<Longrightarrow> 0 \<le> cs \<Longrightarrow> start + int (k * nat (max (cs - ov) 1)) < int (length t) \<Longrightarrow>
     k < length (chunk_loop t cs ov start) \<and>
     chunk_loop t cs ov start ! k
       = take (nat cs) (drop (nat start + k * nat (max (cs - ov) 1)) t)"
proof (induction k arbitrary: start)
  case 0
  then have "start < int (length t)" by simp
  then have "chunk_loop t cs ov start
               = py_slice t start (start + cs) #
                 chunk_loop t cs ov (max (start + cs - ov) (start + 1))"
    by (subst chunk_loop.simps) simp
  then show ?case using 0 by (simp add: py_slice_window)
next
  case (Suc k)
  let ?d = "nat (max (cs - ov) 1)"
  let ?next = "max (start + cs - ov) (start + 1)"
  have nxt: "?next = start + int ?d" by auto
  have nn: "(0::int) \<le> int (Suc k * ?d)" by (rule of_nat_0_le_iff)
  have sp: "int (Suc k * ?d) = int ?d + int (k * ?d)" by simp
  have lt: "start < int (length t)" using Suc.prems(3) nn by linarith
  have unf: "chunk_loop t cs ov start
               = py_slice t start (start + cs) # chunk_loop t cs ov ?next"
    using lt by (subst chunk_loop.simps) simp
  have "?next + int (k * ?d) < int (length t)"
    using Suc.prems(3) unfolding nxt sp by linarith
  moreover have "0 \<le> ?next" using Suc.prems by simp
  ultimately have ih: "k < length (chunk_loop t cs ov ?next) \<and>
     chunk_loop t cs ov ?next ! k = take (nat cs) (drop (nat ?next + k * ?d) t)"
    using Suc.IH Suc.prems(2) by blast
  have "nat ?next + k * ?d = nat start + Suc k * ?d"
    using Suc.prems(1) unfolding nxt by (simp add: nat_add_distrib)
  then show ?case using ih unfolding unf by (simp add: add.assoc)
qed

lemma take_min_length: "take (min (length xs) n) xs = take n xs"
  by (cases "n \<le> length xs") (simp_all add: min_def)

lemma chunk_loop_covers:
  assumes "1 \<le> cs" "0 \<le> ov" "i < length t"
  shows "\<exists>k<length (chunk_loop t cs ov 0).
           k * nat (max (cs - ov) 1) \<le> i \<and>
           i < k * nat (max (cs - ov) 1) + length (chunk_loop t cs ov 0 ! k) \<and>
           chunk_loop t cs ov 0 ! k
             = take (length (chunk_loop t cs ov 0 ! k)) (drop (k * nat (max (cs - ov) 1)) t)"
proof -
  let ?d = "nat (max (cs - ov) 1)"
  define k where "k = i div ?d"
  define m where "m = k * ?d"
  have d: "0 < ?d" "?d \<le> nat cs" using assms by auto
  have le: "m \<le> i" unfolding m_def k_def by simp
  have lt: "i < m + ?d"
    unfolding m_def k_def using d(1) by (metis add.commute dividend_less_div_times)
  have "0 + int (k * ?d) < int (length t)" using le assms(3) unfolding m_def by linarith
  then have nth: "k < length (chunk_loop t cs ov 0)"
    "chunk_loop t cs ov 0 ! k = take (nat cs) (drop m t)"
    using chunk_loop_nth [of 0 cs k ov t] assms(1) unfolding m_def by auto
  have len: "length (chunk_loop t cs ov 0 ! k) = min (nat cs) (length t - m)"
    unfolding nth(2) by (simp add: min.commute)
  have "i < m + min (nat cs) (length t - m)"
    using lt d(2) assms(3) le by (simp add: min_def)
  then have 1: "i < k * ?d + length (chunk_loop t cs ov 0 ! k)"
    unfolding len m_def .
  have 2: "chunk_loop t cs ov 0 ! k
             = take (length (chunk_loop t cs ov 0 ! k)) (drop m t)"
    unfolding nth(2) using take_min_length [of "drop m t" "nat cs"] by simp
  from nth(1) le 1 2 show ?thesis unfolding m_def by blast
qed

lemma chunk_loop_first:
  "0 < length t \<Longrightarrow> 0 \<le> ov \<Longrightarrow> ov < cs \<Longrightarrow>
     chunk_loop t cs ov 0 = take (nat cs) t # chunk_loop t cs ov (cs - ov)"
  by (subst chunk_loop.simps) (simp add: py_slice_window [of 0 cs t, simplified])

text \<open>
  C6, as the code has it. A cleaned text of at most \<open>chunk_size\<close> characters is one
  chunk. For \<open>chunk_size \<ge> 1\<close> and \<open>overlap \<ge> 0\<close> every character of the cleaned text
  lies in a chunk: chunk \<open>k\<close> is the window of the text that starts at \<open>k\<close> times the
  step \<open>max(chunk_size - overlap, 1)\<close>. For \<open>0 \<le> overlap < chunk_size\<close> the first chunk
  followed by the later chunks without their first \<open>overlap\<close> characters is the cleaned
  text.
\<close>

theorem chunks_cover_and_reassemble:
  "(int (length (clean_text text)) \<le> cs \<longrightarrow> chunk_text text cs ov = [clean_text text]) \<and>
   (1 \<le> cs \<and> 0 \<le> ov \<longrightarrow>
      (\<forall>i<length (clean_text text). \<exists>k<length (chunk_text text cs ov).
         k * nat (max (cs - ov) 1) \<le> i \<and>
         i < k * nat (max (cs - ov) 1) + length (chunk_text text cs ov ! k) \<and>
         chunk_text text cs ov ! k
           = take (length (chunk_text text cs ov ! k))
               (drop (k * nat (max (cs - ov) 1)) (clean_text text)))) \<and>
   (0 \<le> ov \<and> ov < cs \<longrightarrow> reassemble ov (chunk_text text cs ov) = clean_text text)"
proof (intro conjI impI allI)
  assume "int (length (clean_text text)) \<le> cs"
  then show "chunk_text text cs ov = [clean_text text]"
    by (simp add: chunk_text_def)
next
  fix i
  assume p: "1 \<le> cs \<and> 0 \<le> ov" and i: "i < length (clean_text text)"
  show "\<exists>k<length (chunk_text text cs ov).
         k * nat (max (cs - ov) 1) \<le> i \<and>
         i < k * nat (max (cs - ov) 1) + length (chunk_text text cs ov ! k) \<and>
         chunk_text text cs ov ! k
           = take (length (chunk_text text cs ov ! k))
               (drop (k * nat (max (cs - ov) 1)) (clean_text text))"
  proof (cases rule: case_split [of "int (length (clean_text text)) \<le> cs"])
    case True
    then have "chunk_text text cs ov = [clean_text text]" by (simp add: chunk_text_def)
    then show ?thesis using i by (intro exI [of _ 0]) simp
  next
    case False
    then have "chunk_text text cs ov = chunk_loop (clean_text text) cs ov 0"
      by (simp add: chunk_text_def)
    then show ?thesis using chunk_loop_covers [of cs ov i "clean_text text"] p i by simp
  qed
next
  assume p: "0 \<le> ov \<and> ov < cs"
  show "reassemble ov (chunk_text text cs ov) = clean_text text"
  proof (cases rule: case_split [of "int (length (clean_text text)) \<le> cs"])
    case True
    then show ?thesis by (simp add: chunk_text_def reassemble_def)
  next
    case False
    let ?t = "clean_text text"
    have pos: "0 < length ?t" using False p by auto
    have "reassemble ov (chunk_text text cs ov)
            = take (nat cs) ?t @ concat (map (drop (nat ov)) (chunk_loop ?t cs ov (cs - ov)))"
      using False p by (simp add: chunk_text_def reassemble_def Let_def chunk_loop_first [OF pos])
    also have "\<dots> = take (nat cs) ?t @ drop (nat (cs - ov + ov)) ?t"
      using p by (simp add: chunk_loop_reassemble)
    finally show ?thesis by simp
  qed
qed

theorem chunks_cover_and_reassemble_witness:
  "chunk_text ''abc'' 8 2 = [clean_text ''abc''] \<and>
   (\<exists>k<length (chunk_text ''abcdefghij'' 8 2).
      k * nat (max (8 - 2) 1) \<le> 9 \<and>
      9 < k * nat (max (8 - 2) 1) + length (chunk_text ''abcdefghij'' 8 2 ! k) \<and>
      chunk_text ''abcdefghij'' 8 2 ! k
        = take (length (chunk_text ''abcdefghij'' 8 2 ! k))
            (drop (k * nat (max (8 - 2) 1)) (clean_text ''abcdefghij''))) \<and>
   reassemble 2 (chunk_text ''abcdefghij'' 8 2) = clean_text ''abcdefghij''"
proof -
  have c1: "clean_text ''abc'' = ''abc''" by code_simp
  have c2: "clean_text ''abcdefghij'' = ''abcdefghij''" by code_simp
  have h1: "int (length (clean_text ''abc'')) \<le> 8" unfolding c1 by simp
  have h2: "(1::int) \<le> 8 \<and> (0::int) \<le> 2" by simp
  have h3: "9 < length (clean_text ''abcdefghij'')" unfolding c2 by simp
  have h4: "(0::int) \<le> 2 \<and> (2::int) < 8" by simp
  note a = chunks_cover_and_reassemble [of "''abc''" 8 2, THEN conjunct1, THEN mp, OF h1]
  note b = chunks_cover_and_reassemble [of "''abcdefghij''" 8 2, THEN conjunct2, THEN conjunct1,
             THEN mp, OF h2, THEN spec, THEN mp, OF h3]
  note c = chunks_cover_and_reassemble [of "''abcdefghij''" 8 2, THEN conjunct2, THEN conjunct2,
             THEN mp, OF h4]
  from a b c show ?thesis by blast
qed

text \<open>
  The claim as stated, for any chunk size and overlap, fails: with an overlap equal to
  the chunk size the loop advances by one character, and removing the overlap from the
  later chunks removes them whole; with a negative overlap the windows leave gaps.
\<close>

theorem chunks_any_overlap_counterexample:
  "chunk_text ''abc'' 2 2 = [''ab'', ''bc'', ''c''] \<and>
   reassemble 2 (chunk_text ''abc'' 2 2) = ''ab'' \<and>
   reassemble 2 (chunk_text ''abc'' 2 2) \<noteq> clean_text ''abc'' \<and>
   clean_text ''abcdef'' = ''abcdef'' \<and>
   chunk_text ''abcdef'' 2 (- 1) = [''ab'', ''de'']"
  by code_simp

section \<open>Batch processing\<close>












section \<open>No directors issue when the text names a director\<close>

text \<open>
  Whatever the document type given, a text whose lower-case form contains \<open>director\<close>
  gets no issue \<open>Missing directors provisions\<close>: the check of the Articles of
  Association is the only one that produces it.
\<close>

lemma jurisdiction_no_directors_issue:
  "list_all (\<lambda>i. issue i \<noteq> ''Missing directors provisions'') (check_jurisdiction text lowered)"
  by (simp add: check_jurisdiction_def mk_issue_def)

lemma signatures_no_directors_issue:
  "list_all (\<lambda>i. issue i \<noteq> ''Missing directors provisions'') (check_signatures text lowered)"
  by (simp add: check_signatures_def mk_issue_def Let_def)

lemma articles_no_directors_issue:
  "str_contains lowered ''director'' \<Longrightarrow>
     list_all (\<lambda>i. issue i \<noteq> ''Missing directors provisions'')
       (check_articles_of_association text lowered)"
  by (simp add: check_articles_of_association_def mk_issue_def)

lemma memorandum_no_directors_issue:
  "list_all (\<lambda>i. issue i \<noteq> ''Missing directors provisions'')
     (check_memorandum_of_association text lowered)"
  by (simp add: check_memorandum_of_association_def mk_issue_def)

lemma ubo_no_directors_issue:
  "list_all (\<lambda>i. issue i \<noteq> ''Missing directors provisions'') (check_ubo_declaration text lowered)"
  by (simp add: check_ubo_declaration_def mk_issue_def)

lemma incorporation_no_directors_issue:
  "list_all (\<lambda>i. issue i \<noteq> ''Missing directors provisions'')
     (check_incorporation_application text lowered)"
  by (simp add: check_incorporation_application_def mk_issue_def)

lemma specific_no_directors_issue:
  "str_contains lowered ''director'' \<Longrightarrow>
     list_all (\<lambda>i. issue i \<noteq> ''Missing directors provisions'')
       (check_document_specific_issues text lowered dt)"
  by (simp add: check_document_specific_issues_def articles_no_directors_issue
      memorandum_no_directors_issue ubo_no_directors_issue incorporation_no_directors_issue)

lemma adgm_no_directors_issue:
  "list_all (\<lambda>i. issue i \<noteq> ''Missing directors provisions'') (check_adgm_compliance text lowered)"
  by (simp add: check_adgm_compliance_def mk_issue_def Let_def)

lemma language_no_directors_issue:
  "list_all (\<lambda>i. issue i \<noteq> ''Missing directors provisions'')
     (check_language_and_formatting text lowered)"
  by (simp add: check_language_and_formatting_def mk_issue_def date_patterns_def
      split: option.splits)

lemma no_directors_issue:
  "str_contains (lower text) ''director'' \<Longrightarrow>
     list_all (\<lambda>i. issue i \<noteq> ''Missing directors provisions'')
       (run_redflag_checks text doc_type)"
  by (simp add: run_redflag_checks_def extend_list_def Let_def
      jurisdiction_no_directors_issue signatures_no_directors_issue articles_no_directors_issue
      memorandum_no_directors_issue ubo_no_directors_issue incorporation_no_directors_issue
      specific_no_directors_issue adgm_no_directors_issue language_no_directors_issue
      split: option.splits)

section \<open>The repository's test of the Articles of Association\<close>

text \<open>
  \<open>test_articles_of_association_detection\<close> asserts that \<open>detect_doc_type\<close> finds
  Articles of Association in its text. The text scores 0.7 / 1.85 for that type; no type
  reaches its threshold and the result is the fallback type.
\<close>

lemma articles_test_normalized: "collapse_ws (lower articles_test_text) =
  '' articles of association of democorp llc 1. company name the name of the company is democorp llc. 2. share capital the authorized share capital is aed 150,000. 3. directors the company shall have at least one director. ''"
  by code_simp

lemma articles_test_not_blank: "is_blank articles_test_text = False"
  by code_simp

lemma articles_test_no_type: "detected_in DOCUMENT_PATTERNS
  '' articles of association of democorp llc 1. company name the name of the company is democorp llc. 2. share capital the authorized share capital is aed 150,000. 3. directors the company shall have at least one director. '' = []"
  by (simp add: DOCUMENT_PATTERNS_def mk_patterns_def calculate_confidence_def count_found_def
      confidence_of_counts_def float_literals float_steps fdiv_zero
      startswith_Nil startswith_Cons startswith_empty Let_def)

lemma articles_test_fallback: "fallback_detection
  '' articles of association of democorp llc 1. company name the name of the company is democorp llc. 2. share capital the authorized share capital is aed 150,000. 3. directors the company shall have at least one director. ''
  = ''Short Form/Notice''"
  by (simp add: fallback_detection_def legal_indicators_def split_def is_space_def
      startswith_Nil startswith_Cons startswith_empty Let_def)

lemma articles_test_not_detected:
  "detect_doc_type articles_test_text False = Names [''Short Form/Notice'']"
  by (simp add: detect_doc_type_def detect_names_def articles_test_not_blank articles_test_normalized articles_test_no_type
      articles_test_fallback del: detected_in.simps)

end
